theory Spec2Isabelle
  imports Complex_Main "HOL-Library.Char_ord" "HOL-Library.List_Lexorder"
begin

section \<open>Python values\<close>

text \<open>
  The tool reads a configuration mapping, builds a JSON request, and consumes a JSON
  reply; all of these are dynamically typed. A value is one of Python's JSON-shaped
  objects. A dictionary keeps its insertion order (an association list whose first
  binding of a key is the one \<open>get\<close> sees); its keys are strings, as in JSON objects
  and in the configuration mapping. A string is a list of code points below 256.

  A finite float is represented by the rational number it denotes; the negative zero,
  the infinities and the not-a-number value are separate constructors.
\<close>

datatype pyfloat = Fin rat | NegZero | Infinity bool | NaN

datatype pyval =
    PNone
  | PBool bool
  | PInt int
  | PFloat pyfloat
  | PStr string
  | PList "pyval list"
  | PDict "(string \<times> pyval) list"

type_synonym pydict = "(string \<times> pyval) list"

text \<open>Truthiness, as \<open>if x:\<close> and \<open>not x\<close> test it.\<close>

fun truthy :: "pyval \<Rightarrow> bool" where
  "truthy PNone = False"
| "truthy (PBool b) = b"
| "truthy (PInt n) = (n \<noteq> 0)"
| "truthy (PFloat (Fin q)) = (q \<noteq> 0)"
| "truthy (PFloat NegZero) = False"
| "truthy (PFloat (Infinity _)) = True"
| "truthy (PFloat NaN) = True"
| "truthy (PStr s) = (s \<noteq> [])"
| "truthy (PList xs) = (xs \<noteq> [])"
| "truthy (PDict d) = (d \<noteq> [])"

text \<open>\<open>d.get(k)\<close> is \<open>None\<close> for a missing key; \<open>d.get(k, default)\<close> is the default.\<close>

definition dict_get :: "pydict \<Rightarrow> string \<Rightarrow> pyval" where
  "dict_get d k = (case map_of d k of None \<Rightarrow> PNone | Some v \<Rightarrow> v)"

definition dict_get_default :: "pydict \<Rightarrow> string \<Rightarrow> pyval \<Rightarrow> pyval" where
  "dict_get_default d k dflt = (case map_of d k of None \<Rightarrow> dflt | Some v \<Rightarrow> v)"

text \<open>
  \<open>{**a, **b}\<close>: the keys of \<open>a\<close> in their order, each with the value \<open>b\<close> gives it
  when \<open>b\<close> has the key, then the keys only \<open>b\<close> has.
\<close>

definition dict_merge :: "pydict \<Rightarrow> pydict \<Rightarrow> pydict" where
  "dict_merge a b =
     map (\<lambda>(k, v). (k, case map_of b k of None \<Rightarrow> v | Some w \<Rightarrow> w)) a
     @ filter (\<lambda>(k, _). map_of a k = None) b"

section \<open>Failures\<close>

text \<open>
  A failure raised by the interpreter's own operations records the operation and its
  operand. The wording of the interpreter's messages (\<open>str(e)\<close>) is not part of the
  repository: it is the parameter \<open>builtin_str\<close> below.
\<close>

datatype builtin_error =
    KeyError pyval
  | IndexError pyval
  | RuntimeError string
  | AttributeError pyval string
  | TypeError string pyval
  | ValueError string string
  | OverflowError string

text \<open>
  A failure is an instance of \<open>Exception\<close> raised by a collaborator (with its
  description text), a \<open>BaseException\<close> that is not an \<open>Exception\<close> (task
  cancellation: \<open>asyncio.CancelledError\<close>), or one of the interpreter's errors, all of
  which are instances of \<open>Exception\<close>.
\<close>

datatype failure =
    PyException string
  | PyBaseException string
  | Builtin builtin_error

fun is_Exception :: "failure \<Rightarrow> bool" where
  "is_Exception (PyException _) = True"
| "is_Exception (PyBaseException _) = False"
| "is_Exception (Builtin _) = True"

section \<open>Decimal text of integers\<close>

definition digit_char :: "int \<Rightarrow> char" where
  "digit_char d = ''0123456789'' ! nat d"

text \<open>The decimal digits of a non-negative integer, the most significant first.\<close>

function digits_of :: "int \<Rightarrow> int list" where
  "digits_of n = (if n < 10 then [n] else digits_of (n div 10) @ [n mod 10])"
  by pat_completeness auto
termination
  by (relation "measure nat") auto

declare digits_of.simps [simp del]

definition decimal_text :: "int \<Rightarrow> string" where
  "decimal_text n = map digit_char (digits_of n)"

text \<open>\<open>str(n)\<close>, which is what the replacement field \<open>{n}\<close> of an f-string gives.\<close>

definition str_int :: "int \<Rightarrow> string" where
  "str_int i = (if i < 0 then CHR ''-'' # decimal_text (- i) else decimal_text i)"

section \<open>Strings\<close>

text \<open>
  The characters \<open>int()\<close> and \<open>float()\<close> skip around a literal: the whitespace
  code points below 256 that they accept.
\<close>

definition is_space :: "char \<Rightarrow> bool" where
  "is_space c = (let n = (of_char c :: nat) in (9 \<le> n \<and> n \<le> 13) \<or> n = 32 \<or> n = 133 \<or> n = 160)"

definition strip :: "string \<Rightarrow> string" where
  "strip s = rev (dropWhile is_space (rev (dropWhile is_space s)))"

text \<open>\<open>s.rstrip("s")\<close> removes every trailing \<open>s\<close>.\<close>

definition rstrip :: "char \<Rightarrow> string \<Rightarrow> string" where
  "rstrip c s = rev (dropWhile (\<lambda>x. x = c) (rev s))"

text \<open>\<open>s.lower()\<close> on the code points below 256: A-Z and the accented capitals.\<close>

definition lower_char :: "char \<Rightarrow> char" where
  "lower_char c =
     (let n = (of_char c :: nat)
      in if (65 \<le> n \<and> n \<le> 90) \<or> (192 \<le> n \<and> n \<le> 222 \<and> n \<noteq> 215)
         then char_of (n + 32) else c)"

definition lower :: "string \<Rightarrow> string" where
  "lower s = map lower_char s"

text \<open>\<open>s.replace("_", " ")\<close>: the replaced text is one character.\<close>

definition replace_char :: "char \<Rightarrow> char \<Rightarrow> string \<Rightarrow> string" where
  "replace_char a b s = map (\<lambda>c. if c = a then b else c) s"

text \<open>\<open>sep.join(parts)\<close>.\<close>

fun join :: "string \<Rightarrow> string list \<Rightarrow> string" where
  "join sep [] = []"
| "join sep [x] = x"
| "join sep (x # y # ys) = x @ sep @ join sep (y # ys)"

section \<open>The conversion \<open>int(s)\<close> of a string\<close>

definition is_digit :: "char \<Rightarrow> bool" where
  "is_digit c = (48 \<le> (of_char c :: nat) \<and> (of_char c :: nat) \<le> 57)"

definition digit_val :: "char \<Rightarrow> int" where
  "digit_val c = int (of_char c) - 48"

text \<open>
  A run of decimal digits in which single underscores may stand between two digits:
  its digits, or \<open>None\<close> when the text is not such a run.
\<close>

fun digit_run :: "string \<Rightarrow> int list option" where
  "digit_run [] = None"
| "digit_run [c] = (if is_digit c then Some [digit_val c] else None)"
| "digit_run (c # d # cs) =
     (if \<not> is_digit c then None
      else if d = CHR ''_'' then map_option (Cons (digit_val c)) (digit_run cs)
      else map_option (Cons (digit_val c)) (digit_run (d # cs)))"

definition decimal_value :: "int list \<Rightarrow> int" where
  "decimal_value ds = foldl (\<lambda>a d. 10 * a + d) 0 ds"

text \<open>
  \<open>int(s)\<close> in base ten: surrounding whitespace is dropped, one sign may lead, the rest
  is a digit run. Anything else is a \<open>ValueError\<close>. (The interpreter's limits on
  resources, such as the greatest number of digits it converts, are not modelled.)
\<close>

definition int_of_str :: "string \<Rightarrow> failure + int" where
  "int_of_str s =
     (let t = strip s;
          (neg, body) = (case t of
                           c # cs \<Rightarrow> if c = CHR ''-'' then (True, cs)
                                     else if c = CHR ''+'' then (False, cs)
                                     else (False, t)
                         | [] \<Rightarrow> (False, t))
      in case digit_run body of
           None \<Rightarrow> Inl (Builtin (ValueError ''int'' s))
         | Some ds \<Rightarrow> Inr (if neg then - decimal_value ds else decimal_value ds))"

section \<open>Floats\<close>

text \<open>Rounding to the nearest integer, a tie going to the even one.\<close>

definition round_half_even :: "rat \<Rightarrow> int" where
  "round_half_even x =
     (let f = \<lfloor>x\<rfloor>; d = x - of_int f
      in if d < 1 / 2 then f else if 1 / 2 < d then f + 1 else if even f then f else f + 1)"

definition pow2 :: "int \<Rightarrow> rat" where
  "pow2 k = (if 0 \<le> k then 2 ^ nat k else 1 / 2 ^ nat (- k))"

text \<open>\<open>n.bit_length()\<close> of a non-negative integer.\<close>

function bit_length :: "int \<Rightarrow> nat" where
  "bit_length n = (if n \<le> 0 then 0 else Suc (bit_length (n div 2)))"
  by pat_completeness auto
termination
  by (relation "measure nat") auto

declare bit_length.simps [simp del]

text \<open>For a positive \<open>x\<close>, the exponent \<open>e\<close> with \<open>2 ^ e \<le> x < 2 ^ (e + 1)\<close>.\<close>

definition binary_exponent :: "rat \<Rightarrow> int" where
  "binary_exponent x =
     (let (a, b) = quotient_of x;
          k = int (bit_length a) - int (bit_length b)
      in if pow2 k \<le> x then k else k - 1)"

text \<open>
  The double-precision number nearest to a non-negative \<open>x\<close> (53 significant bits,
  a tie going to the even significand; the least spacing is \<open>2 ^ - 1074\<close>). A result
  whose exponent is 1024 or more (\<open>2 ^ 1024\<close> or more) is beyond the doubles.
\<close>

definition nearest_double :: "rat \<Rightarrow> rat" where
  "nearest_double x =
     (if x = 0 then 0
      else let u = pow2 (max (binary_exponent x - 52) (- 1074))
           in of_int (round_half_even (x / u)) * u)"

text \<open>The float an exact value rounds to; \<open>Infinity True\<close> is the negative infinity.\<close>

definition make_float :: "rat \<Rightarrow> pyfloat" where
  "make_float x =
     (let y = nearest_double \<bar>x\<bar>
      in if y = 0 then (if x < 0 then NegZero else Fin 0)
         else if 1024 \<le> binary_exponent y then Infinity (x < 0)
         else Fin (if x < 0 then - y else y))"

text \<open>\<open>float(n)\<close> of an integer.\<close>

definition float_of_int :: "int \<Rightarrow> failure + pyfloat" where
  "float_of_int n =
     (case make_float (of_int n) of
        Infinity _ \<Rightarrow> Inl (Builtin (OverflowError ''int too large to convert to float''))
      | f \<Rightarrow> Inr f)"

text \<open>
  \<open>float(s)\<close> of a string: whitespace around, a sign, then \<open>inf\<close>, \<open>infinity\<close> or
  \<open>nan\<close> in any case, or a decimal literal: digits, a point, digits (one of the two
  runs may be empty), and an exponent. Underscores stand between digits only.
\<close>

definition opt_run :: "string \<Rightarrow> int list option" where
  "opt_run r = (if r = [] then Some [] else digit_run r)"

definition is_exp_char :: "char \<Rightarrow> bool" where
  "is_exp_char c = (c = CHR ''e'' \<or> c = CHR ''E'')"

definition split_sign :: "string \<Rightarrow> bool \<times> string" where
  "split_sign t =
     (case t of
        c # cs \<Rightarrow> if c = CHR ''-'' then (True, cs)
                  else if c = CHR ''+'' then (False, cs)
                  else (False, t)
      | [] \<Rightarrow> (False, t))"

definition exponent_of :: "string \<Rightarrow> int option" where
  "exponent_of ex =
     (if ex = [] then Some 0
      else let (neg, ds) = split_sign (tl ex)
           in map_option (\<lambda>r. if neg then - decimal_value r else decimal_value r)
                (digit_run ds))"

definition decimal_of :: "string \<Rightarrow> rat option" where
  "decimal_of t =
     (let mant = takeWhile (\<lambda>c. \<not> is_exp_char c) t;
          ex = dropWhile (\<lambda>c. \<not> is_exp_char c) t;
          ip = takeWhile (\<lambda>c. c \<noteq> CHR ''.'') mant;
          fp = drop 1 (dropWhile (\<lambda>c. c \<noteq> CHR ''.'') mant)
      in if ip = [] \<and> fp = [] then None
         else case (opt_run ip, opt_run fp, exponent_of ex) of
                (Some i, Some f, Some e) \<Rightarrow>
                  Some (of_int (decimal_value (i @ f)) *
                        (let p = e - int (length f)
                         in if 0 \<le> p then 10 ^ nat p else 1 / 10 ^ nat (- p)))
              | _ \<Rightarrow> None)"

definition float_of_str :: "string \<Rightarrow> failure + pyfloat" where
  "float_of_str s =
     (let (neg, t) = split_sign (strip s);
          w = map lower_char t
      in if w = ''inf'' \<or> w = ''infinity'' then Inr (Infinity neg)
         else if w = ''nan'' then Inr NaN
         else case decimal_of t of
                None \<Rightarrow> Inl (Builtin (ValueError ''float'' s))
              | Some q \<Rightarrow> if q = 0 then Inr (if neg then NegZero else Fin 0)
                          else Inr (make_float (if neg then - q else q)))"

text \<open>\<open>float(x)\<close>.\<close>

fun py_float :: "pyval \<Rightarrow> failure + pyfloat" where
  "py_float (PFloat f) = Inr f"
| "py_float (PInt n) = float_of_int n"
| "py_float (PBool b) = Inr (Fin (if b then 1 else 0))"
| "py_float (PStr s) = float_of_str s"
| "py_float v = Inl (Builtin (TypeError ''float'' v))"

text \<open>
  \<open>x / 1000\<close>. Of an integer (a truth value is one) it is the correctly rounded
  quotient, or an \<open>OverflowError\<close>; of a float it is the float division by \<open>1000.0\<close>.
\<close>

fun div_1000 :: "pyval \<Rightarrow> failure + pyfloat" where
  "div_1000 (PInt n) =
     (case make_float (of_int n / 1000) of
        Infinity _ \<Rightarrow> Inl (Builtin (OverflowError ''integer division result too large for a float''))
      | f \<Rightarrow> Inr f)"
| "div_1000 (PBool b) = Inr (make_float ((if b then 1 else 0) / 1000))"
| "div_1000 (PFloat (Fin q)) = Inr (if q = 0 then Fin 0 else make_float (q / 1000))"
| "div_1000 (PFloat f) = Inr f"
| "div_1000 v = Inl (Builtin (TypeError ''/'' v))"

text \<open>
  The format \<open>{x:.1f}\<close>: the decimal with one digit after the point nearest to the
  float's exact value, a tie going to the even digit.
\<close>

definition format_1f :: "pyfloat \<Rightarrow> string" where
  "format_1f x =
     (case x of
        Fin q \<Rightarrow>
          (let t = round_half_even (\<bar>q\<bar> * 10)
           in (if q < 0 then ''-'' else []) @ decimal_text (t div 10) @ ''.''
              @ decimal_text (t mod 10))
      | NegZero \<Rightarrow> ''-0.0''
      | Infinity neg \<Rightarrow> (if neg then ''-inf'' else ''inf'')
      | NaN \<Rightarrow> ''nan'')"

section \<open>What the module imports\<close>

text \<open>
  The constants of \<open>const.py\<close> are not among the source files; they are parameters of
  the model, as is the wording of the interpreter's own error messages.
\<close>

record deps =
  DOMAIN :: string
  CONF_GOOGLE_ROUTES_API_KEY :: string
  CONF_GOOGLE_ROUTES_LATITUDE :: string
  CONF_GOOGLE_ROUTES_LONGITUDE :: string
  CONF_GOOGLE_ROUTES_TRAVEL_MODE :: string
  SERVICE_DEFAULTS :: pydict
  builtin_str :: "builtin_error \<Rightarrow> string"

text \<open>\<open>str(e)\<close> of a failure.\<close>

fun str_of :: "deps \<Rightarrow> failure \<Rightarrow> string" where
  "str_of g (PyException s) = s"
| "str_of g (PyBaseException s) = s"
| "str_of g (Builtin b) = builtin_str g b"

text \<open>The value of \<open>__name__\<close> in the module, the namespace of its cache entries.\<close>

definition this_module :: string where
  "this_module = ''custom_components.llm_intents.GoogleRoutes''"

definition response_directive :: string where
  "response_directive =
     join [char_of (10 :: nat)]
       [''Use the route information to answer the user's query.'',
        ''Focus on the transit time and relevant route details the user is interested in.'']"

section \<open>The host and the collaborators\<close>

text \<open>
  Of the host, the call reads \<open>hass.data[DOMAIN]\<close> (absent when the key is missing) and
  the options of the configuration entries that \<open>async_entries(DOMAIN)\<close> lists. The
  tool's \<open>parameters\<close> schema requires the argument \<open>destination\<close> and makes it a
  string, so the tool input is that string.
\<close>

record hass =
  data_domain :: "pydict option"
  config_entries :: "pydict list"

record tool_input =
  destination :: string

text \<open>
  The reply of the remote service, as the call can observe it: its status, what
  \<open>await resp.json()\<close> and \<open>await resp.text()\<close> do (return or raise), and whether
  leaving the \<open>async with\<close> block raises. (The block's exit never swallows a failure:
  the HTTP client's context manager returns \<open>None\<close>.)
\<close>

record response =
  resp_status :: int
  resp_json :: "failure + pyval"
  resp_text :: "failure + string"
  resp_aexit :: "failure option"

text \<open>
  The behaviour of the collaborators in one invocation: each call returns or raises.
  \<open>cache_get\<close> and \<open>cache_set\<close> take the namespace and the payload (and the result);
  \<open>session_post\<close> takes the URL, the JSON body and the headers.
\<close>

record env =
  async_get_clientsession :: "failure option"
  SQLiteCache :: "failure option"
  cache_get :: "string \<Rightarrow> pyval \<Rightarrow> failure + pyval"
  cache_set :: "string \<Rightarrow> pyval \<Rightarrow> pyval \<Rightarrow> failure option"
  session_post :: "string \<Rightarrow> pyval \<Rightarrow> pyval \<Rightarrow> failure + response"

text \<open>What an invocation does to the outside, in order.\<close>

datatype event =
    CacheGet string pyval
  | HttpPost string pyval pyval
  | CacheSet string pyval pyval
  | LogError string

datatype outcome = Return pyval | Raise failure

section \<open>The transform\<close>

definition and_then :: "failure + 'a \<Rightarrow> ('a \<Rightarrow> failure + 'b) \<Rightarrow> failure + 'b" where
  "and_then r f = (case r of Inl e \<Rightarrow> Inl e | Inr v \<Rightarrow> f v)"

text \<open>\<open>x.get(k, default)\<close>: only a dictionary has the method.\<close>

fun py_get :: "pyval \<Rightarrow> string \<Rightarrow> pyval \<Rightarrow> failure + pyval" where
  "py_get (PDict d) k dflt = Inr (dict_get_default d k dflt)"
| "py_get v k dflt = Inl (Builtin (AttributeError v ''get''))"

text \<open>
  \<open>x[0]\<close> of a value that is truthy: the first element of a list, the first character
  of a string; a dictionary has string keys, so none is \<open>0\<close>; nothing else has items.
\<close>

fun subscript0 :: "pyval \<Rightarrow> failure + pyval" where
  "subscript0 (PList (x # xs)) = Inr x"
| "subscript0 (PList []) = Inl (Builtin (IndexError (PList [])))"
| "subscript0 (PStr (c # cs)) = Inr (PStr [c])"
| "subscript0 (PStr []) = Inl (Builtin (IndexError (PStr [])))"
| "subscript0 (PDict d) = Inl (Builtin (KeyError (PInt 0)))"
| "subscript0 v = Inl (Builtin (TypeError ''[]'' v))"

text \<open>\<open>int(x.rstrip("s"))\<close>: only a string has the method.\<close>

fun duration_seconds :: "pyval \<Rightarrow> failure + int" where
  "duration_seconds (PStr s) = int_of_str (rstrip CHR ''s'' s)"
| "duration_seconds v = Inl (Builtin (AttributeError v ''rstrip''))"

text \<open>Lines 135-142: hours and minutes, each with its own plural.\<close>

definition duration_text :: "int \<Rightarrow> string" where
  "duration_text secs =
     (let hours = secs div 3600;
          minutes = (secs mod 3600) div 60
      in if hours > 0
         then str_int hours @ '' hour'' @ (if hours \<noteq> 1 then ''s'' else []) @ '' ''
              @ str_int minutes @ '' minute'' @ (if minutes \<noteq> 1 then ''s'' else [])
         else str_int minutes @ '' minute'' @ (if minutes \<noteq> 1 then ''s'' else []))"

text \<open>Line 148: \<open>f"{distance_km:.1f} km"\<close>.\<close>

definition distance_text :: "pyfloat \<Rightarrow> string" where
  "distance_text distance_km = format_1f distance_km @ '' km''"

text \<open>\<open>travel_mode.lower().replace("_", " ")\<close>: only a string has the method.\<close>

fun travel_mode_text :: "pyval \<Rightarrow> failure + string" where
  "travel_mode_text (PStr s) = Inr (replace_char CHR ''_'' CHR '' '' (lower s))"
| "travel_mode_text v = Inl (Builtin (AttributeError v ''lower''))"

text \<open>Lines 130-150, in the order the source evaluates them.\<close>

definition transform :: "string \<Rightarrow> pyval \<Rightarrow> pyval \<Rightarrow> failure + pyval" where
  "transform dest travel_mode routes =
     and_then (subscript0 routes) (\<lambda>route.
     and_then (py_get route ''duration'' (PStr ''0s'')) (\<lambda>d.
     and_then (duration_seconds d) (\<lambda>secs.
     and_then (py_get route ''distanceMeters'' (PInt 0)) (\<lambda>distance_meters.
     and_then (div_1000 distance_meters) (\<lambda>distance_km.
     and_then (travel_mode_text travel_mode) (\<lambda>mode.
       Inr (PDict [(''destination'', PStr dest),
                   (''travel_mode'', PStr mode),
                   (''duration'', PStr (duration_text secs)),
                   (''distance'', PStr (distance_text distance_km)),
                   (''instruction'', PStr response_directive)])))))))"

section \<open>\<open>GetTransitTimesTool.async_call\<close>\<close>

text \<open>
  Lines 59-61: \<open>hass.data[DOMAIN]\<close> raises \<open>KeyError\<close> on a missing key;
  \<open>next(iter(...))\<close> of no entries raises \<open>StopIteration\<close>, which leaves a coroutine
  as a \<open>RuntimeError\<close>; \<open>{**config_data, **entry.options}\<close> needs a mapping.
\<close>

definition read_config :: "deps \<Rightarrow> hass \<Rightarrow> failure + pydict" where
  "read_config g h =
     (case data_domain h of
        None \<Rightarrow> Inl (Builtin (KeyError (PStr (DOMAIN g))))
      | Some dd \<Rightarrow>
          (case config_entries h of
             [] \<Rightarrow> Inl (Builtin (RuntimeError ''coroutine raised StopIteration''))
           | entry_options # _ \<Rightarrow>
               (case dict_get_default dd ''config'' (PDict []) of
                  PDict config_data \<Rightarrow> Inr (dict_merge config_data entry_options)
                | v \<Rightarrow> Inl (Builtin (TypeError ''**'' v)))))"

text \<open>Lines 83-98.\<close>

definition request_body :: "pyval \<Rightarrow> pyval \<Rightarrow> string \<Rightarrow> pyval \<Rightarrow> failure + pyval" where
  "request_body latitude longitude dest travel_mode =
     and_then (py_float latitude) (\<lambda>lat.
     and_then (py_float longitude) (\<lambda>lng.
       Inr (PDict
         [(''origin'', PDict [(''location'', PDict [(''latLng'',
             PDict [(''latitude'', PFloat lat), (''longitude'', PFloat lng)])])]),
          (''destination'', PDict [(''address'', PStr dest)]),
          (''travelMode'', travel_mode),
          (''routingPreference'', PStr ''TRAFFIC_AWARE''),
          (''computeAlternativeRoutes'', PBool False),
          (''languageCode'', PStr ''en-US''),
          (''units'', PStr ''METRIC'')])))"

text \<open>Lines 105-116.\<close>

definition field_mask :: string where
  "field_mask = join '','' [''routes.duration'', ''routes.distanceMeters'']"

definition headers :: "pyval \<Rightarrow> pyval" where
  "headers api_key =
     PDict [(''Content-Type'', PStr ''application/json''),
            (''X-Goog-Api-Key'', api_key),
            (''X-Goog-FieldMask'', PStr field_mask)]"

definition routes_url :: string where
  "routes_url = ''https://routes.googleapis.com/directions/v2:computeRoutes''"

definition no_route_result :: pyval where
  "no_route_result = PDict [(''result'', PStr ''No route found to destination'')]"

definition api_error_result :: "int \<Rightarrow> pyval" where
  "api_error_result st = PDict [(''error'', PStr (''Routes API error: '' @ str_int st))]"

text \<open>
  Lines 123-158, the body of the \<open>async with\<close> block: what it returns or raises, and
  the events it causes.
\<close>

definition with_body ::
  "env \<Rightarrow> string \<Rightarrow> pyval \<Rightarrow> pyval \<Rightarrow> response \<Rightarrow> outcome \<times> event list" where
  "with_body e dest travel_mode body resp =
     (if resp_status resp = 200 then
        (case resp_json resp of
           Inl f \<Rightarrow> (Raise f, [])
         | Inr data \<Rightarrow>
             (case py_get data ''routes'' (PList []) of
                Inl f \<Rightarrow> (Raise f, [])
              | Inr routes \<Rightarrow>
                  if \<not> truthy routes then (Return no_route_result, [])
                  else (case transform dest travel_mode routes of
                          Inl f \<Rightarrow> (Raise f, [])
                        | Inr result \<Rightarrow>
                            (case cache_set e this_module body result of
                               Some f \<Rightarrow> (Raise f, [CacheSet this_module body result])
                             | None \<Rightarrow> (Return result, [CacheSet this_module body result])))))
      else
        (case resp_text resp of
           Inl f \<Rightarrow> (Raise f, [])
         | Inr txt \<Rightarrow>
             (Return (api_error_result (resp_status resp)),
              [LogError (''Routes API received a HTTP '' @ str_int (resp_status resp)
                         @ '' error from Google: '' @ txt)])))"

text \<open>
  Leaving the \<open>async with\<close> block runs the context manager's exit, whether the body
  returned or raised; a failure of the exit replaces the body's outcome.
\<close>

definition with_exit :: "response \<Rightarrow> outcome \<times> event list \<Rightarrow> outcome \<times> event list" where
  "with_exit resp r = (case resp_aexit resp of Some f \<Rightarrow> (Raise f, snd r) | None \<Rightarrow> r)"

text \<open>Lines 80-158, the body of the \<open>try\<close> statement.\<close>

definition try_body ::
  "env \<Rightarrow> pyval \<Rightarrow> pyval \<Rightarrow> pyval \<Rightarrow> string \<Rightarrow> pyval \<Rightarrow> outcome \<times> event list" where
  "try_body e api_key latitude longitude dest travel_mode =
     (case async_get_clientsession e of
        Some f \<Rightarrow> (Raise f, [])
      | None \<Rightarrow>
          (case request_body latitude longitude dest travel_mode of
             Inl f \<Rightarrow> (Raise f, [])
           | Inr body \<Rightarrow>
               (case SQLiteCache e of
                  Some f \<Rightarrow> (Raise f, [])
                | None \<Rightarrow>
                    (case cache_get e this_module body of
                       Inl f \<Rightarrow> (Raise f, [CacheGet this_module body])
                     | Inr cached_response \<Rightarrow>
                         if truthy cached_response
                         then (Return cached_response, [CacheGet this_module body])
                         else (case session_post e routes_url body (headers api_key) of
                                 Inl f \<Rightarrow>
                                   (Raise f, [CacheGet this_module body,
                                              HttpPost routes_url body (headers api_key)])
                               | Inr resp \<Rightarrow>
                                   (let r = with_exit resp (with_body e dest travel_mode body resp)
                                    in (fst r, [CacheGet this_module body,
                                                HttpPost routes_url body (headers api_key)]
                                               @ snd r)))))))"

definition key_error_result :: pyval where
  "key_error_result = PDict [(''error'', PStr ''Google Routes API key not configured'')]"

definition origin_error_result :: pyval where
  "origin_error_result =
     PDict [(''error'', PStr ''Origin location (latitude/longitude) not configured'')]"

text \<open>
  Lines 160-162: \<open>except Exception as e\<close> catches the instances of \<open>Exception\<close>, logs
  and returns the error mapping; any other failure leaves the call.
\<close>

definition except_Exception :: "deps \<Rightarrow> outcome \<times> event list \<Rightarrow> outcome \<times> event list" where
  "except_Exception g r =
     (case fst r of
        Return v \<Rightarrow> r
      | Raise f \<Rightarrow>
          if is_Exception f
          then (Return (PDict [(''error'', PStr (''Error getting route: '' @ str_of g f))]),
                snd r @ [LogError (''Routes API error: '' @ str_of g f)])
          else r)"

text \<open>Lines 59-162: the outcome of the call and the events it causes.\<close>

definition async_call :: "deps \<Rightarrow> env \<Rightarrow> hass \<Rightarrow> tool_input \<Rightarrow> outcome \<times> event list" where
  "async_call g e h ti =
     (case read_config g h of
        Inl f \<Rightarrow> (Raise f, [])
      | Inr config_data \<Rightarrow>
          (let api_key = dict_get config_data (CONF_GOOGLE_ROUTES_API_KEY g);
               latitude = dict_get config_data (CONF_GOOGLE_ROUTES_LATITUDE g);
               longitude = dict_get config_data (CONF_GOOGLE_ROUTES_LONGITUDE g);
               travel_mode = dict_get_default config_data (CONF_GOOGLE_ROUTES_TRAVEL_MODE g)
                               (dict_get (SERVICE_DEFAULTS g) (CONF_GOOGLE_ROUTES_TRAVEL_MODE g))
           in if \<not> truthy api_key then (Return key_error_result, [])
              else if \<not> truthy latitude \<or> \<not> truthy longitude
              then (Return origin_error_result, [])
              else except_Exception g
                     (try_body e api_key latitude longitude (destination ti) travel_mode)))"

text \<open>Line 68-71: the travel mode the call uses, read from a configuration.\<close>

abbreviation travel_mode_of :: "deps \<Rightarrow> pydict \<Rightarrow> pyval" where
  "travel_mode_of g config_data \<equiv>
     dict_get_default config_data (CONF_GOOGLE_ROUTES_TRAVEL_MODE g)
       (dict_get (SERVICE_DEFAULTS g) (CONF_GOOGLE_ROUTES_TRAVEL_MODE g))"

section \<open>Concrete invocations\<close>

text \<open>
  The fixtures of the repository's tests (\<open>tests/test_google_routes.py\<close>): the
  configuration, the host with one configuration entry, a cache that misses and
  stores, and a session whose \<open>post\<close> gives a fixed reply.
\<close>

fun class_name :: "builtin_error \<Rightarrow> string" where
  "class_name (KeyError _) = ''KeyError''"
| "class_name (IndexError _) = ''IndexError''"
| "class_name (RuntimeError _) = ''RuntimeError''"
| "class_name (AttributeError _ _) = ''AttributeError''"
| "class_name (TypeError _ _) = ''TypeError''"
| "class_name (ValueError _ _) = ''ValueError''"
| "class_name (OverflowError _) = ''OverflowError''"

definition test_deps :: deps where
  "test_deps =
     \<lparr>DOMAIN = ''llm_intents'',
      CONF_GOOGLE_ROUTES_API_KEY = ''google_routes_api_key'',
      CONF_GOOGLE_ROUTES_LATITUDE = ''google_routes_latitude'',
      CONF_GOOGLE_ROUTES_LONGITUDE = ''google_routes_longitude'',
      CONF_GOOGLE_ROUTES_TRAVEL_MODE = ''google_routes_travel_mode'',
      SERVICE_DEFAULTS = [],
      builtin_str = class_name\<rparr>"

definition test_config_data :: pydict where
  "test_config_data =
     [(''google_routes_enabled'', PBool True),
      (''google_routes_api_key'', PStr ''test_routes_key''),
      (''google_routes_latitude'', PStr ''40.7128''),
      (''google_routes_longitude'', PStr ''-74.0060''),
      (''google_routes_travel_mode'', PStr ''DRIVE'')]"

definition test_hass :: "pydict \<Rightarrow> hass" where
  "test_hass config = \<lparr>data_domain = Some [(''config'', PDict config)], config_entries = [[]]\<rparr>"

definition mock_response :: "int \<Rightarrow> failure + pyval \<Rightarrow> failure + string \<Rightarrow> response" where
  "mock_response st js txt =
     \<lparr>resp_status = st, resp_json = js, resp_text = txt, resp_aexit = None\<rparr>"

definition mock_env :: "pyval \<Rightarrow> failure + response \<Rightarrow> env" where
  "mock_env cached reply =
     \<lparr>async_get_clientsession = None,
      SQLiteCache = None,
      cache_get = (\<lambda>ns payload. Inr cached),
      cache_set = (\<lambda>ns payload result. None),
      session_post = (\<lambda>url body hdrs. reply)\<rparr>"

definition test_input :: "string \<Rightarrow> tool_input" where
  "test_input dest = \<lparr>destination = dest\<rparr>"

text \<open>The reply of \<open>test_get_transit_times_success\<close>.\<close>

definition success_reply :: response where
  "success_reply =
     mock_response 200
       (Inr (PDict [(''routes'', PList [PDict
          [(''duration'', PStr ''1200s''),
           (''distanceMeters'', PInt 5000),
           (''legs'', PList [PDict [(''duration'', PStr ''1200s''),
                                    (''distanceMeters'', PInt 5000)]])]])]))
       (Inr [])"

text \<open>The configurations of \<open>test_get_transit_times_no_api_key\<close> and \<open>..._no_origin\<close>.\<close>

definition no_api_key_config :: pydict where
  "no_api_key_config =
     [(''google_routes_enabled'', PBool True),
      (''google_routes_latitude'', PStr ''40.7128''),
      (''google_routes_longitude'', PStr ''-74.0060'')]"

definition no_origin_config :: pydict where
  "no_origin_config =
     [(''google_routes_enabled'', PBool True),
      (''google_routes_api_key'', PStr ''test_key'')]"

text \<open>An origin on the equator, and a credential that is the empty text.\<close>

definition equator_config :: pydict where
  "equator_config =
     [(''google_routes_api_key'', PStr ''test_routes_key''),
      (''google_routes_latitude'', PInt 0),
      (''google_routes_longitude'', PStr ''-74.0060''),
      (''google_routes_travel_mode'', PStr ''DRIVE'')]"

definition empty_key_config :: pydict where
  "empty_key_config =
     [(''google_routes_api_key'', PStr []),
      (''google_routes_latitude'', PStr ''40.7128''),
      (''google_routes_longitude'', PStr ''-74.0060'')]"

text \<open>
  A configuration whose origin is given as numbers (40.75 degrees north, 74 degrees
  west), the request payload it leads to, and the stored result of
  \<open>test_get_transit_times_cached\<close>.
\<close>

definition numeric_config :: pydict where
  "numeric_config =
     [(''google_routes_api_key'', PStr ''test_routes_key''),
      (''google_routes_latitude'', PFloat (Fin (163 / 4))),
      (''google_routes_longitude'', PFloat (Fin (- 74))),
      (''google_routes_travel_mode'', PStr ''DRIVE'')]"

definition test_payload :: "string \<Rightarrow> pyval" where
  "test_payload dest =
     PDict
       [(''origin'', PDict [(''location'', PDict [(''latLng'',
           PDict [(''latitude'', PFloat (Fin (163 / 4))),
                  (''longitude'', PFloat (Fin (- 74)))])])]),
        (''destination'', PDict [(''address'', PStr dest)]),
        (''travelMode'', PStr ''DRIVE''),
        (''routingPreference'', PStr ''TRAFFIC_AWARE''),
        (''computeAlternativeRoutes'', PBool False),
        (''languageCode'', PStr ''en-US''),
        (''units'', PStr ''METRIC'')]"

definition cached_result :: pyval where
  "cached_result =
     PDict [(''destination'', PStr ''Times Square''),
            (''duration'', PStr ''20 minutes''),
            (''distance'', PStr ''5.0 km'')]"

text \<open>The replies of \<open>test_get_transit_times_no_route_found\<close> and \<open>..._api_error\<close>.\<close>

definition no_route_reply :: response where
  "no_route_reply = mock_response 200 (Inr (PDict [(''routes'', PList [])])) (Inr [])"



definition fractional_reply :: response where
  "fractional_reply =
     mock_response 200
       (Inr (PDict [(''routes'', PList [PDict [(''duration'', PStr ''12.5s''),
                                               (''distanceMeters'', PInt 5000)]])]))
       (Inr [])"

text \<open>
  A cache whose write fails (the database is locked), and a reply that fails when
  the call leaves it.
\<close>

definition failing_write_env :: "failure + response \<Rightarrow> env" where
  "failing_write_env reply =
     \<lparr>async_get_clientsession = None,
      SQLiteCache = None,
      cache_get = (\<lambda>ns payload. Inr PNone),
      cache_set = (\<lambda>ns payload result. Some (PyException ''database is locked'')),
      session_post = (\<lambda>url body hdrs. reply)\<rparr>"

definition closing_failure_reply :: response where
  "closing_failure_reply =
     \<lparr>resp_status = 200,
      resp_json = Inr (PDict [(''routes'', PList [PDict
          [(''duration'', PStr ''1200s''), (''distanceMeters'', PInt 5000)]])]),
      resp_text = Inr [],
      resp_aexit = Some (PyException ''Connection closed'')\<rparr>"

text \<open>The result of \<open>test_get_transit_times_success\<close>.\<close>

definition success_result :: "string \<Rightarrow> pyval" where
  "success_result dest =
     PDict [(''destination'', PStr dest),
            (''travel_mode'', PStr ''drive''),
            (''duration'', PStr ''20 minutes''),
            (''distance'', PStr ''5.0 km''),
            (''instruction'', PStr response_directive)]"


section \<open>Properties of the text conversions\<close>









lemma digits_of_small: "n < 10 \<Longrightarrow> digits_of n = [n]"
  by (subst digits_of.simps) simp

lemma digits_of_large: "\<not> n < 10 \<Longrightarrow> digits_of n = digits_of (n div 10) @ [n mod 10]"
  by (subst digits_of.simps) simp








lemmas text_eval = int_of_str_def strip_def rstrip_def is_space_def is_digit_def digit_val_def
  decimal_value_def duration_text_def str_int_def decimal_text_def digits_of_small digits_of_large
  digit_char_def



section \<open>Precondition validation\<close>

lemma read_config_test_hass: "read_config test_deps (test_hass c) = Inr c"
  by (simp add: read_config_def test_hass_def dict_get_default_def dict_merge_def
      case_prod_unfold)

text \<open>
  C5. Once the configuration has been read: if the credential is absent from it, the
  call returns the error mapping that says the API key is not configured; if the
  credential is configured and a coordinate of the origin is absent, it returns the
  error mapping that says the origin location is not configured. The two mappings
  differ. Each is returned, not raised, and the call causes no event: no cache access
  and no remote request.
\<close>

theorem config_errors:
  assumes "read_config g h = Inr config_data"
  shows "(map_of config_data (CONF_GOOGLE_ROUTES_API_KEY g) = None
            \<longrightarrow> async_call g e h ti = (Return key_error_result, []))
       \<and> (truthy (dict_get config_data (CONF_GOOGLE_ROUTES_API_KEY g))
            \<and> (map_of config_data (CONF_GOOGLE_ROUTES_LATITUDE g) = None
                \<or> map_of config_data (CONF_GOOGLE_ROUTES_LONGITUDE g) = None)
            \<longrightarrow> async_call g e h ti = (Return origin_error_result, []))
       \<and> key_error_result = PDict [(''error'', PStr ''Google Routes API key not configured'')]
       \<and> origin_error_result =
           PDict [(''error'', PStr ''Origin location (latitude/longitude) not configured'')]
       \<and> key_error_result \<noteq> origin_error_result"
  using assms
  by (auto simp: async_call_def dict_get_def Let_def key_error_result_def origin_error_result_def)

theorem config_errors_witness:
  "async_call test_deps (mock_env PNone (Inr success_reply)) (test_hass no_api_key_config)
      (test_input ''Times Square'')
     = (Return (PDict [(''error'', PStr ''Google Routes API key not configured'')]), [])
   \<and> async_call test_deps (mock_env PNone (Inr success_reply)) (test_hass no_origin_config)
      (test_input ''Times Square'')
     = (Return (PDict [(''error'', PStr ''Origin location (latitude/longitude) not configured'')]), [])"
proof -
  have a: "map_of no_api_key_config (CONF_GOOGLE_ROUTES_API_KEY test_deps) = None"
    by (simp add: no_api_key_config_def test_deps_def)
  have b: "truthy (dict_get no_origin_config (CONF_GOOGLE_ROUTES_API_KEY test_deps))
           \<and> (map_of no_origin_config (CONF_GOOGLE_ROUTES_LATITUDE test_deps) = None
                \<or> map_of no_origin_config (CONF_GOOGLE_ROUTES_LONGITUDE test_deps) = None)"
    by (simp add: no_origin_config_def test_deps_def dict_get_def)
  from config_errors[OF read_config_test_hass, of no_api_key_config
         "mock_env PNone (Inr success_reply)" "test_input ''Times Square''"]
       config_errors[OF read_config_test_hass, of no_origin_config
         "mock_env PNone (Inr success_reply)" "test_input ''Times Square''"]
       a b
  show ?thesis by simp
qed

text \<open>
  C9. A coordinate of the origin that is configured but falsy (the integer 0, the
  float 0.0 or the empty text) is treated as not configured: with a configured
  credential the call returns the origin-location error mapping, so a place on the
  equator or the prime meridian is rejected. A credential that is the empty text is
  treated as absent as well.
\<close>

theorem falsy_configuration:
  assumes "read_config g h = Inr config_data"
    and "v = PInt 0 \<or> v = PFloat (Fin 0) \<or> v = PStr []"
  shows "(truthy (dict_get config_data (CONF_GOOGLE_ROUTES_API_KEY g))
            \<and> (map_of config_data (CONF_GOOGLE_ROUTES_LATITUDE g) = Some v
                \<or> map_of config_data (CONF_GOOGLE_ROUTES_LONGITUDE g) = Some v)
            \<longrightarrow> async_call g e h ti = (Return origin_error_result, []))
       \<and> (map_of config_data (CONF_GOOGLE_ROUTES_API_KEY g) = Some (PStr [])
            \<longrightarrow> async_call g e h ti = (Return key_error_result, []))"
  using assms
  by (auto simp: async_call_def dict_get_def Let_def)

theorem falsy_configuration_witness:
  "async_call test_deps (mock_env PNone (Inr success_reply)) (test_hass equator_config)
      (test_input ''Quito'')
     = (Return (PDict [(''error'', PStr ''Origin location (latitude/longitude) not configured'')]), [])
   \<and> async_call test_deps (mock_env PNone (Inr success_reply)) (test_hass empty_key_config)
      (test_input ''Quito'')
     = (Return (PDict [(''error'', PStr ''Google Routes API key not configured'')]), [])"
proof -
  have v: "PInt 0 = PInt 0 \<or> PInt 0 = PFloat (Fin 0) \<or> PInt 0 = PStr []" by simp
  have a: "truthy (dict_get equator_config (CONF_GOOGLE_ROUTES_API_KEY test_deps))
           \<and> (map_of equator_config (CONF_GOOGLE_ROUTES_LATITUDE test_deps) = Some (PInt 0)
                \<or> map_of equator_config (CONF_GOOGLE_ROUTES_LONGITUDE test_deps) = Some (PInt 0))"
    by (simp add: equator_config_def test_deps_def dict_get_def)
  have b: "map_of empty_key_config (CONF_GOOGLE_ROUTES_API_KEY test_deps) = Some (PStr [])"
    by (simp add: empty_key_config_def test_deps_def)
  from falsy_configuration[OF read_config_test_hass v, of equator_config
         "mock_env PNone (Inr success_reply)" "test_input ''Quito''"]
       falsy_configuration[OF read_config_test_hass v, of empty_key_config
         "mock_env PNone (Inr success_reply)" "test_input ''Quito''"]
       a b
  show ?thesis by (simp add: origin_error_result_def key_error_result_def)
qed

section \<open>The paths of the call\<close>

text \<open>What the body of the \<open>async with\<close> block can do, and what each part lets through.\<close>

lemma with_body_cases:
  "with_body e d tm b resp = r \<Longrightarrow>
     (\<exists>f. r = (Raise f, []))
   \<or> r = (Return no_route_result, [])
   \<or> (\<exists>result f. r = (Raise f, [CacheSet this_module b result]))
   \<or> (\<exists>result. r = (Return result, [CacheSet this_module b result]))
   \<or> (\<exists>s. r = (Return (api_error_result (resp_status resp)), [LogError s]))"
  by (auto simp: with_body_def split: sum.splits option.splits if_splits)

lemma with_exit_snd: "snd (with_exit resp r) = snd r"
  by (simp add: with_exit_def split: option.splits)

lemma with_block_events:
  "ev \<in> set (snd (with_exit resp (with_body e d tm b resp))) \<Longrightarrow>
     (\<exists>r. ev = CacheSet this_module b r) \<or> (\<exists>s. ev = LogError s)"
  using with_body_cases[OF refl, of e d tm b resp] by (auto simp: with_exit_snd)

lemma try_body_CacheGet:
  assumes "CacheGet ns p \<in> set (snd (try_body e k la lo d tm))"
  shows "ns = this_module \<and> request_body la lo d tm = Inr p
         \<and> async_get_clientsession e = None \<and> SQLiteCache e = None"
  using assms
  by (auto simp: try_body_def Let_def split: sum.splits option.splits if_splits
           dest: with_block_events)

lemma try_body_hit:
  assumes "request_body la lo d tm = Inr p" "async_get_clientsession e = None"
    "SQLiteCache e = None" "cache_get e this_module p = Inr v" "truthy v"
  shows "try_body e k la lo d tm = (Return v, [CacheGet this_module p])"
  using assms by (simp add: try_body_def)

lemma try_body_miss:
  assumes "request_body la lo d tm = Inr p" "async_get_clientsession e = None"
    "SQLiteCache e = None" "cache_get e this_module p = Inr v" "\<not> truthy v"
    "session_post e routes_url p (headers k) = Inr resp"
  shows "try_body e k la lo d tm =
           (fst (with_exit resp (with_body e d tm p resp)),
            [CacheGet this_module p, HttpPost routes_url p (headers k)]
            @ snd (with_body e d tm p resp))"
  using assms by (simp add: try_body_def Let_def with_exit_snd)

lemma except_Exception_Return: "except_Exception g (Return v, evs) = (Return v, evs)"
  by (simp add: except_Exception_def)

lemma except_Exception_events:
  "ev \<in> set (snd (except_Exception g r)) \<Longrightarrow> ev \<in> set (snd r) \<or> (\<exists>s. ev = LogError s)"
  by (auto simp: except_Exception_def split: outcome.splits if_splits)

lemma async_call_cases:
  "(\<exists>f. async_call g e h ti = (Raise f, []))
   \<or> async_call g e h ti = (Return key_error_result, [])
   \<or> async_call g e h ti = (Return origin_error_result, [])
   \<or> (\<exists>cfg. read_config g h = Inr cfg
        \<and> truthy (dict_get cfg (CONF_GOOGLE_ROUTES_API_KEY g))
        \<and> truthy (dict_get cfg (CONF_GOOGLE_ROUTES_LATITUDE g))
        \<and> truthy (dict_get cfg (CONF_GOOGLE_ROUTES_LONGITUDE g))
        \<and> async_call g e h ti =
            except_Exception g
              (try_body e (dict_get cfg (CONF_GOOGLE_ROUTES_API_KEY g))
                 (dict_get cfg (CONF_GOOGLE_ROUTES_LATITUDE g))
                 (dict_get cfg (CONF_GOOGLE_ROUTES_LONGITUDE g))
                 (destination ti)
                 (dict_get_default cfg (CONF_GOOGLE_ROUTES_TRAVEL_MODE g)
                    (dict_get (SERVICE_DEFAULTS g) (CONF_GOOGLE_ROUTES_TRAVEL_MODE g)))))"
  by (auto simp: async_call_def Let_def split: sum.splits)

lemma async_call_configured:
  assumes "read_config g h = Inr cfg"
    and "truthy (dict_get cfg (CONF_GOOGLE_ROUTES_API_KEY g))"
    and "truthy (dict_get cfg (CONF_GOOGLE_ROUTES_LATITUDE g))"
    and "truthy (dict_get cfg (CONF_GOOGLE_ROUTES_LONGITUDE g))"
  shows "async_call g e h ti =
           except_Exception g
             (try_body e (dict_get cfg (CONF_GOOGLE_ROUTES_API_KEY g))
                (dict_get cfg (CONF_GOOGLE_ROUTES_LATITUDE g))
                (dict_get cfg (CONF_GOOGLE_ROUTES_LONGITUDE g))
                (destination ti)
                (dict_get_default cfg (CONF_GOOGLE_ROUTES_TRAVEL_MODE g)
                   (dict_get (SERVICE_DEFAULTS g) (CONF_GOOGLE_ROUTES_TRAVEL_MODE g))))"
  using assms by (simp add: async_call_def Let_def)

text \<open>The fixture with a numeric origin: what the call reads from it.\<close>

lemma numeric_config_reads:
  "dict_get numeric_config (CONF_GOOGLE_ROUTES_API_KEY test_deps) = PStr ''test_routes_key''"
  "dict_get numeric_config (CONF_GOOGLE_ROUTES_LATITUDE test_deps) = PFloat (Fin (163 / 4))"
  "dict_get numeric_config (CONF_GOOGLE_ROUTES_LONGITUDE test_deps) = PFloat (Fin (- 74))"
  "dict_get_default numeric_config (CONF_GOOGLE_ROUTES_TRAVEL_MODE test_deps)
     (dict_get (SERVICE_DEFAULTS test_deps) (CONF_GOOGLE_ROUTES_TRAVEL_MODE test_deps))
     = PStr ''DRIVE''"
  by (simp_all add: numeric_config_def test_deps_def dict_get_def dict_get_default_def)

lemma numeric_request_body:
  "request_body (PFloat (Fin (163 / 4))) (PFloat (Fin (- 74))) dest (PStr ''DRIVE'')
     = Inr (test_payload dest)"
  by (simp add: request_body_def and_then_def test_payload_def)

lemma numeric_call:
  "async_call test_deps e (test_hass numeric_config) (test_input dest) =
     except_Exception test_deps
       (try_body e (PStr ''test_routes_key'') (PFloat (Fin (163 / 4))) (PFloat (Fin (- 74)))
          dest (PStr ''DRIVE''))"
  using async_call_configured[OF read_config_test_hass, of numeric_config e "test_input dest"]
  by (simp add: numeric_config_reads test_input_def)

lemma mock_env_simps:
  "async_get_clientsession (mock_env c r) = None"
  "SQLiteCache (mock_env c r) = None"
  "cache_get (mock_env c r) ns p = Inr c"
  "cache_set (mock_env c r) ns p v = None"
  "session_post (mock_env c r) url b hdrs = r"
  by (simp_all add: mock_env_def)

lemma try_body_HttpPost:
  assumes "HttpPost url p hdrs \<in> set (snd (try_body e k la lo d tm))"
  shows "url = routes_url \<and> hdrs = headers k \<and> request_body la lo d tm = Inr p
         \<and> async_get_clientsession e = None \<and> SQLiteCache e = None
         \<and> (\<exists>v. cache_get e this_module p = Inr v \<and> \<not> truthy v)"
  using assms
  by (auto simp: try_body_def Let_def split: sum.splits option.splits if_splits
           dest: with_block_events)

text \<open>
  When the call has posted a request and the post gave a reply, the rest of the call
  is the \<open>async with\<close> block on that reply, under the \<open>except\<close> clause.
\<close>

lemma async_call_posted:
  assumes "HttpPost url body hdrs \<in> set (snd (async_call g e h ti))"
    and "session_post e url body hdrs = Inr resp"
  shows "\<exists>cfg. read_config g h = Inr cfg
           \<and> async_call g e h ti =
               except_Exception g
                 (fst (with_exit resp
                         (with_body e (destination ti)
                            (dict_get_default cfg (CONF_GOOGLE_ROUTES_TRAVEL_MODE g)
                               (dict_get (SERVICE_DEFAULTS g) (CONF_GOOGLE_ROUTES_TRAVEL_MODE g)))
                            body resp)),
                  [CacheGet this_module body, HttpPost url body hdrs]
                  @ snd (with_body e (destination ti)
                           (dict_get_default cfg (CONF_GOOGLE_ROUTES_TRAVEL_MODE g)
                              (dict_get (SERVICE_DEFAULTS g) (CONF_GOOGLE_ROUTES_TRAVEL_MODE g)))
                           body resp))"
proof -
  from async_call_cases[of g e h ti] assms(1)
  obtain cfg where cfg: "read_config g h = Inr cfg"
    and run: "async_call g e h ti =
      except_Exception g
        (try_body e (dict_get cfg (CONF_GOOGLE_ROUTES_API_KEY g))
           (dict_get cfg (CONF_GOOGLE_ROUTES_LATITUDE g))
           (dict_get cfg (CONF_GOOGLE_ROUTES_LONGITUDE g))
           (destination ti)
           (dict_get_default cfg (CONF_GOOGLE_ROUTES_TRAVEL_MODE g)
              (dict_get (SERVICE_DEFAULTS g) (CONF_GOOGLE_ROUTES_TRAVEL_MODE g))))"
    (is "_ = except_Exception g ?tb")
    by auto
  from assms(1) run have "HttpPost url body hdrs \<in> set (snd ?tb)"
    using except_Exception_events[of "HttpPost url body hdrs" g ?tb] by auto
  from try_body_HttpPost[OF this]
  obtain v where url: "url = routes_url"
    and hdrs: "hdrs = headers (dict_get cfg (CONF_GOOGLE_ROUTES_API_KEY g))"
    and body: "request_body (dict_get cfg (CONF_GOOGLE_ROUTES_LATITUDE g))
                 (dict_get cfg (CONF_GOOGLE_ROUTES_LONGITUDE g)) (destination ti)
                 (dict_get_default cfg (CONF_GOOGLE_ROUTES_TRAVEL_MODE g)
                    (dict_get (SERVICE_DEFAULTS g) (CONF_GOOGLE_ROUTES_TRAVEL_MODE g)))
               = Inr body"
    and session: "async_get_clientsession e = None"
    and cache: "SQLiteCache e = None"
    and get: "cache_get e this_module body = Inr v"
    and miss: "\<not> truthy v"
    by auto
  from assms(2) url hdrs
  have post: "session_post e routes_url body
                (headers (dict_get cfg (CONF_GOOGLE_ROUTES_API_KEY g))) = Inr resp"
    by simp
  from try_body_miss[OF body session cache get miss post] run cfg url hdrs
  show ?thesis by simp
qed

lemma numeric_posted:
  assumes "session_post e routes_url (test_payload dest) (headers (PStr ''test_routes_key''))
             = Inr resp"
    and "async_get_clientsession e = None" "SQLiteCache e = None"
    and "cache_get e this_module (test_payload dest) = Inr v" "\<not> truthy v"
  shows "HttpPost routes_url (test_payload dest) (headers (PStr ''test_routes_key''))
           \<in> set (snd (async_call test_deps e (test_hass numeric_config) (test_input dest)))"
  using assms
  by (simp add: numeric_call try_body_def numeric_request_body Let_def except_Exception_def
      split: outcome.splits)

section \<open>The cache lookup\<close>

text \<open>
  C3. When the call has looked up the cache (with namespace \<open>ns\<close> and payload
  \<open>payload\<close>) and the lookup returned a stored result that counts as a hit (a truthy
  value), the call returns that value unchanged, the lookup is the only thing it did
  to the outside, and it issued no remote request.
\<close>

theorem cache_hit:
  assumes "CacheGet ns payload \<in> set (snd (async_call g e h ti))"
    and "cache_get e ns payload = Inr cached"
    and "truthy cached"
  shows "async_call g e h ti = (Return cached, [CacheGet ns payload])
       \<and> (\<forall>url body hdrs. HttpPost url body hdrs \<notin> set (snd (async_call g e h ti)))"
proof -
  from async_call_cases[of g e h ti] assms(1)
  obtain cfg where run: "async_call g e h ti =
      except_Exception g
        (try_body e (dict_get cfg (CONF_GOOGLE_ROUTES_API_KEY g))
           (dict_get cfg (CONF_GOOGLE_ROUTES_LATITUDE g))
           (dict_get cfg (CONF_GOOGLE_ROUTES_LONGITUDE g))
           (destination ti)
           (dict_get_default cfg (CONF_GOOGLE_ROUTES_TRAVEL_MODE g)
              (dict_get (SERVICE_DEFAULTS g) (CONF_GOOGLE_ROUTES_TRAVEL_MODE g))))"
    (is "_ = except_Exception g ?tb")
    by auto
  from assms(1) run have "CacheGet ns payload \<in> set (snd ?tb)"
    using except_Exception_events[of "CacheGet ns payload" g ?tb] by auto
  from try_body_CacheGet[OF this]
  have ns: "ns = this_module"
    and body: "request_body (dict_get cfg (CONF_GOOGLE_ROUTES_LATITUDE g))
                 (dict_get cfg (CONF_GOOGLE_ROUTES_LONGITUDE g)) (destination ti)
                 (dict_get_default cfg (CONF_GOOGLE_ROUTES_TRAVEL_MODE g)
                    (dict_get (SERVICE_DEFAULTS g) (CONF_GOOGLE_ROUTES_TRAVEL_MODE g)))
               = Inr payload"
    and session: "async_get_clientsession e = None"
    and cache: "SQLiteCache e = None"
    by simp_all
  from assms(2) ns have get: "cache_get e this_module payload = Inr cached" by simp
  have "?tb = (Return cached, [CacheGet this_module payload])"
    by (rule try_body_hit[OF body session cache get assms(3)])
  with run ns have "async_call g e h ti = (Return cached, [CacheGet ns payload])"
    by (simp add: except_Exception_Return)
  thus ?thesis by simp
qed

theorem cache_hit_witness:
  "async_call test_deps (mock_env cached_result (Inr success_reply)) (test_hass numeric_config)
      (test_input ''Times Square'')
     = (Return (PDict [(''destination'', PStr ''Times Square''),
                       (''duration'', PStr ''20 minutes''),
                       (''distance'', PStr ''5.0 km'')]),
        [CacheGet this_module (test_payload ''Times Square'')])"
proof -
  have run: "async_call test_deps (mock_env cached_result (Inr success_reply))
               (test_hass numeric_config) (test_input ''Times Square'')
             = (Return cached_result, [CacheGet this_module (test_payload ''Times Square'')])"
    by (simp add: numeric_call try_body_def numeric_request_body mock_env_simps
        cached_result_def except_Exception_def)
  have a: "CacheGet this_module (test_payload ''Times Square'')
           \<in> set (snd (async_call test_deps (mock_env cached_result (Inr success_reply))
                          (test_hass numeric_config) (test_input ''Times Square'')))"
    by (simp add: run)
  have b: "cache_get (mock_env cached_result (Inr success_reply)) this_module
             (test_payload ''Times Square'') = Inr cached_result"
    by (simp add: mock_env_simps)
  have c: "truthy cached_result" by (simp add: cached_result_def)
  from cache_hit[OF a b c] show ?thesis by (simp add: cached_result_def)
qed

section \<open>The reply of the remote service\<close>



section \<open>The distance text\<close>

lemma bit_length_numeral: "bit_length (numeral n) = Suc (bit_length (numeral n div 2))"
  by (subst bit_length.simps) simp

lemma bit_length_0: "bit_length 0 = 0"
  by (subst bit_length.simps) simp

lemma bit_length_1: "bit_length 1 = 1"
  by (subst bit_length.simps) (simp add: bit_length_0)

lemma bit_length_pos: "0 < k \<Longrightarrow> 1 \<le> bit_length k"
  by (subst bit_length.simps) simp

lemma bit_length_le: "k < 2 ^ n \<Longrightarrow> bit_length k \<le> n"
proof (induction n arbitrary: k)
  case 0
  hence "k \<le> 0" by simp
  thus ?case by (subst bit_length.simps) simp
next
  case (Suc n)
  show ?case
  proof (cases "k \<le> 0")
    case True
    thus ?thesis by (subst bit_length.simps) simp
  next
    case False
    from Suc.prems have "k div 2 < 2 ^ n" by simp
    from Suc.IH[OF this] False show ?thesis by (subst bit_length.simps) simp
  qed
qed

lemmas float_eval = make_float_def nearest_double_def binary_exponent_def pow2_def
  bit_length_numeral bit_length_0 bit_length_1 round_half_even_def Let_def

lemma round_half_even_int: "round_half_even (of_int m) = m"
  by (simp add: round_half_even_def)


text \<open>A whole number below \<open>2 ^ 53\<close> is a double: rounding leaves it as it is.\<close>

lemma binary_exponent_int:
  assumes "0 < k" "k < 2 ^ 53"
  shows "- 1 \<le> binary_exponent (of_int k) \<and> binary_exponent (of_int k) \<le> 52"
proof -
  from bit_length_pos[OF assms(1)] bit_length_le[OF assms(2)]
  have "1 \<le> bit_length k" "bit_length k \<le> 53" .
  thus ?thesis by (simp add: binary_exponent_def bit_length_1 Let_def)
qed

lemma nearest_double_int:
  assumes "0 < k" "k < 2 ^ 53"
  shows "nearest_double (of_int k) = of_int k"
proof -
  define n where "n = nat (52 - binary_exponent (of_int k))"
  from binary_exponent_int[OF assms]
  have u: "pow2 (max (binary_exponent (of_int k) - 52) (- 1074)) = 1 / 2 ^ n"
    by (cases "binary_exponent (of_int k) = 52") (simp_all add: pow2_def n_def max_def)
  have "(of_int k :: rat) / (1 / 2 ^ n) = of_int (k * 2 ^ n)" by simp
  hence "round_half_even (of_int k / (1 / 2 ^ n)) = k * 2 ^ n"
    by (simp only: round_half_even_int)
  with assms(1) u show ?thesis by (simp add: nearest_double_def Let_def)
qed

lemma make_float_int:
  assumes "0 \<le> k" "k < 2 ^ 53"
  shows "make_float (of_int k) = Fin (of_int k)"
proof (cases "k = 0")
  case True
  thus ?thesis by (simp add: make_float_def nearest_double_def)
next
  case False
  with assms have pos: "0 < k" by simp
  from nearest_double_int[OF pos assms(2)] binary_exponent_int[OF pos assms(2)] pos
  show ?thesis by (simp add: make_float_def Let_def)
qed

lemma div_1000_whole:
  assumes "0 \<le> k" "k < 2 ^ 53"
  shows "div_1000 (PInt (1000 * k)) = Inr (Fin (of_int k))"
  using make_float_int[OF assms] by simp

lemma distance_text_whole:
  assumes "0 \<le> k"
  shows "distance_text (Fin (of_int k)) = decimal_text k @ ''.0 km''"
proof -
  have "\<bar>of_int k :: rat\<bar> * 10 = of_int (k * 10)" using assms by simp
  hence "round_half_even (\<bar>of_int k :: rat\<bar> * 10) = k * 10"
    by (simp only: round_half_even_int)
  thus ?thesis using assms
    by (simp add: distance_text_def format_1f_def Let_def decimal_text_def digits_of_small
        digit_char_def)
qed



section \<open>Routes that lack a field\<close>

lemmas mode_eval = lower_def lower_char_def char_of_def replace_char_def bit_Suc_0_iff

lemma transform_first_route:
  assumes "duration_seconds (dict_get_default route ''duration'' (PStr ''0s'')) = Inr secs"
    and "div_1000 (dict_get_default route ''distanceMeters'' (PInt 0)) = Inr km"
  shows "transform dest (PStr mode) (PList (PDict route # others)) =
           Inr (PDict [(''destination'', PStr dest),
                       (''travel_mode'', PStr (replace_char CHR ''_'' CHR '' '' (lower mode))),
                       (''duration'', PStr (duration_text secs)),
                       (''distance'', PStr (distance_text km)),
                       (''instruction'', PStr response_directive)])"
  using assms by (simp add: transform_def and_then_def)





section \<open>The cache write\<close>

lemma transform_shape:
  assumes "transform d tm routes = Inr v"
  shows "\<exists>m du di. v = PDict [(''destination'', PStr d), (''travel_mode'', PStr m),
                                (''duration'', PStr du), (''distance'', PStr di),
                                (''instruction'', PStr response_directive)]"
  using assms by (auto simp: transform_def and_then_def split: sum.splits)

lemma with_body_CacheSet:
  assumes "CacheSet ns p v \<in> set (snd (with_body e d tm b resp))"
  shows "ns = this_module \<and> p = b \<and> resp_status resp = 200
         \<and> (\<exists>data routes. resp_json resp = Inr data
               \<and> py_get data ''routes'' (PList []) = Inr routes \<and> truthy routes
               \<and> transform d tm routes = Inr v)
         \<and> with_body e d tm b resp =
             (case cache_set e this_module b v of Some f \<Rightarrow> Raise f | None \<Rightarrow> Return v,
              [CacheSet this_module b v])"
  using assms by (auto simp: with_body_def split: sum.splits option.splits if_splits)

lemma with_body_written:
  assumes "resp_status resp = 200" "resp_json resp = Inr data"
    "py_get data ''routes'' (PList []) = Inr routes" "truthy routes"
    "transform d tm routes = Inr v"
  shows "with_body e d tm b resp =
           (case cache_set e this_module b v of Some f \<Rightarrow> Raise f | None \<Rightarrow> Return v,
            [CacheSet this_module b v])"
  using assms by (simp add: with_body_def split: option.splits)

lemma try_body_CacheSet:
  assumes "CacheSet ns p v \<in> set (snd (try_body e k la lo d tm))"
  shows "\<exists>resp data routes.
           ns = this_module \<and> session_post e routes_url p (headers k) = Inr resp
           \<and> resp_status resp = 200 \<and> resp_json resp = Inr data
           \<and> py_get data ''routes'' (PList []) = Inr routes \<and> truthy routes
           \<and> transform d tm routes = Inr v
           \<and> try_body e k la lo d tm =
               (case resp_aexit resp of
                  Some f \<Rightarrow> Raise f
                | None \<Rightarrow> (case cache_set e this_module p v of
                             Some f \<Rightarrow> Raise f | None \<Rightarrow> Return v),
                [CacheGet this_module p, HttpPost routes_url p (headers k),
                 CacheSet this_module p v])"
proof -
  from assms obtain c resp where body: "request_body la lo d tm = Inr p"
    and session: "async_get_clientsession e = None" and cache: "SQLiteCache e = None"
    and get: "cache_get e this_module p = Inr c" and miss: "\<not> truthy c"
    and post: "session_post e routes_url p (headers k) = Inr resp"
    and inner: "CacheSet ns p v \<in> set (snd (with_body e d tm p resp))"
    by (auto simp: try_body_def Let_def with_exit_snd
             split: sum.splits option.splits if_splits dest: with_body_CacheSet)
  from with_body_CacheSet[OF inner] obtain data routes where
    ns: "ns = this_module" and st: "resp_status resp = 200"
    and js: "resp_json resp = Inr data"
    and rs: "py_get data ''routes'' (PList []) = Inr routes" "truthy routes"
    and tr: "transform d tm routes = Inr v"
    and wb: "with_body e d tm p resp =
             (case cache_set e this_module p v of Some f \<Rightarrow> Raise f | None \<Rightarrow> Return v,
              [CacheSet this_module p v])"
    by blast
  have "try_body e k la lo d tm =
               (case resp_aexit resp of
                  Some f \<Rightarrow> Raise f
                | None \<Rightarrow> (case cache_set e this_module p v of
                             Some f \<Rightarrow> Raise f | None \<Rightarrow> Return v),
                [CacheGet this_module p, HttpPost routes_url p (headers k),
                 CacheSet this_module p v])"
    unfolding try_body_miss[OF body session cache get miss post] wb
    by (simp add: with_exit_def split: option.splits)
  with ns post st js rs tr show ?thesis by blast
qed

lemma except_Exception_keeps:
  "ev \<in> set (snd r) \<Longrightarrow> ev \<in> set (snd (except_Exception g r))"
  by (auto simp: except_Exception_def split: outcome.splits)

lemma except_Exception_CacheSet:
  "CacheSet ns p v \<in> set (snd (except_Exception g r)) \<longleftrightarrow> CacheSet ns p v \<in> set (snd r)"
  using except_Exception_events[of "CacheSet ns p v" g r]
        except_Exception_keeps[of "CacheSet ns p v" r g]
  by auto

lemma async_call_written:
  assumes "CacheSet ns p v \<in> set (snd (async_call g e h ti))"
  shows "\<exists>cfg hdrs resp data routes.
           ns = this_module \<and> read_config g h = Inr cfg
           \<and> session_post e routes_url p hdrs = Inr resp
           \<and> resp_status resp = 200 \<and> resp_json resp = Inr data
           \<and> py_get data ''routes'' (PList []) = Inr routes \<and> truthy routes
           \<and> transform (destination ti) (travel_mode_of g cfg) routes = Inr v
           \<and> async_call g e h ti =
               except_Exception g
                 (case resp_aexit resp of
                    Some f \<Rightarrow> Raise f
                  | None \<Rightarrow> (case cache_set e this_module p v of
                               Some f \<Rightarrow> Raise f | None \<Rightarrow> Return v),
                  [CacheGet this_module p, HttpPost routes_url p hdrs,
                   CacheSet this_module p v])"
proof -
  from async_call_cases[of g e h ti] assms
  obtain cfg where cfg: "read_config g h = Inr cfg"
    and run: "async_call g e h ti =
      except_Exception g
        (try_body e (dict_get cfg (CONF_GOOGLE_ROUTES_API_KEY g))
           (dict_get cfg (CONF_GOOGLE_ROUTES_LATITUDE g))
           (dict_get cfg (CONF_GOOGLE_ROUTES_LONGITUDE g))
           (destination ti) (travel_mode_of g cfg))"
    (is "_ = except_Exception g ?tb")
    by auto
  from assms run have "CacheSet ns p v \<in> set (snd ?tb)"
    by (simp add: except_Exception_CacheSet)
  from try_body_CacheSet[OF this] run cfg show ?thesis by metis
qed

lemma except_Exception_forms:
  "except_Exception g (x, l) = (x, l)
   \<or> (\<exists>f. x = Raise f \<and> is_Exception f
          \<and> except_Exception g (x, l) =
              (Return (PDict [(''error'', PStr (''Error getting route: '' @ str_of g f))]),
               l @ [LogError (''Routes API error: '' @ str_of g f)]))"
  by (auto simp: except_Exception_def split: outcome.splits)

text \<open>The transform of the route of \<open>test_get_transit_times_success\<close>.\<close>

lemma transform_1200_5000:
  assumes "map_of route ''duration'' = Some (PStr ''1200s'')"
    and "map_of route ''distanceMeters'' = Some (PInt 5000)"
  shows "transform dest (PStr ''DRIVE'') (PList (PDict route # others)) = Inr (success_result dest)"
proof -
  have d: "duration_seconds (dict_get_default route ''duration'' (PStr ''0s'')) = Inr 1200"
    using assms(1) by (simp add: dict_get_default_def text_eval)
  have k: "div_1000 (dict_get_default route ''distanceMeters'' (PInt 0)) = Inr (Fin 5)"
    using assms(2) div_1000_whole[of 5] by (simp add: dict_get_default_def)
  have t: "duration_text 1200 = ''20 minutes''" by (simp add: text_eval)
  have s: "distance_text (Fin 5) = ''5.0 km''"
    using distance_text_whole[of 5] by (simp add: text_eval)
  have m: "replace_char CHR ''_'' CHR '' '' (lower ''DRIVE'') = ''drive''"
    by (simp add: mode_eval)
  from transform_first_route[OF d k, of dest "''DRIVE''" others] show ?thesis
    by (simp only: t s m success_result_def)
qed

lemmas run_eval = numeric_call try_body_def numeric_request_body Let_def with_body_def
  with_exit_def except_Exception_def mock_response_def dict_get_default_def

lemma no_route_run:
  "async_call test_deps (mock_env PNone (Inr no_route_reply)) (test_hass numeric_config)
      (test_input dest)
     = (Return no_route_result,
        [CacheGet this_module (test_payload dest),
         HttpPost routes_url (test_payload dest) (headers (PStr ''test_routes_key''))])"
  by (simp add: run_eval mock_env_simps no_route_reply_def)

text \<open>
  C2, as the code has it. The call writes to the cache exactly when it has posted the
  request, the reply has status 200 and truthy routes, and the transform of the
  first route has succeeded; the write has the namespace and the payload of the
  lookup made before it, and the transformed result. The write happens at most once,
  after the lookup and the request, and at most the log entry of an exception
  follows it. A call that returns the no-route mapping or a status error mapping has
  not written. When the write itself and leaving the reply do not fail, a call that
  has written returns the stored result and has caught no exception.
\<close>

theorem cache_write:
  "(CacheSet ns p v \<in> set (snd (async_call g e h ti)) \<longleftrightarrow>
      ns = this_module
      \<and> (\<exists>hdrs resp data routes cfg.
            HttpPost routes_url p hdrs \<in> set (snd (async_call g e h ti))
            \<and> session_post e routes_url p hdrs = Inr resp
            \<and> resp_status resp = 200 \<and> resp_json resp = Inr data
            \<and> py_get data ''routes'' (PList []) = Inr routes \<and> truthy routes
            \<and> read_config g h = Inr cfg
            \<and> transform (destination ti) (travel_mode_of g cfg) routes = Inr v))
   \<and> (CacheSet ns p v \<in> set (snd (async_call g e h ti)) \<longrightarrow>
        (\<exists>hdrs rest.
           snd (async_call g e h ti) =
             [CacheGet ns p, HttpPost routes_url p hdrs, CacheSet ns p v] @ rest
           \<and> (rest = [] \<or> (\<exists>s. rest = [LogError s]))))
   \<and> (fst (async_call g e h ti) = Return no_route_result
        \<or> fst (async_call g e h ti) = Return (api_error_result st)
       \<longrightarrow> CacheSet ns p v \<notin> set (snd (async_call g e h ti)))
   \<and> (CacheSet ns p v \<in> set (snd (async_call g e h ti))
        \<and> cache_set e ns p v = None
        \<and> (\<forall>hdrs resp. session_post e routes_url p hdrs = Inr resp
                        \<longrightarrow> resp_aexit resp = None)
       \<longrightarrow> (\<exists>hdrs. async_call g e h ti =
                     (Return v, [CacheGet ns p, HttpPost routes_url p hdrs, CacheSet ns p v])))"
proof -
  let ?evs = "snd (async_call g e h ti)"
  have wr: "\<exists>cfg hdrs resp data routes.
           ns = this_module \<and> read_config g h = Inr cfg
           \<and> session_post e routes_url p hdrs = Inr resp
           \<and> resp_status resp = 200 \<and> resp_json resp = Inr data
           \<and> py_get data ''routes'' (PList []) = Inr routes \<and> truthy routes
           \<and> transform (destination ti) (travel_mode_of g cfg) routes = Inr v
           \<and> async_call g e h ti =
               except_Exception g
                 (case resp_aexit resp of
                    Some f \<Rightarrow> Raise f
                  | None \<Rightarrow> (case cache_set e this_module p v of
                               Some f \<Rightarrow> Raise f | None \<Rightarrow> Return v),
                  [CacheGet this_module p, HttpPost routes_url p hdrs,
                   CacheSet this_module p v])"
    if "CacheSet ns p v \<in> set ?evs"
    using that by (rule async_call_written)
  have forward: "ns = this_module
      \<and> (\<exists>hdrs resp data routes cfg.
            HttpPost routes_url p hdrs \<in> set ?evs
            \<and> session_post e routes_url p hdrs = Inr resp
            \<and> resp_status resp = 200 \<and> resp_json resp = Inr data
            \<and> py_get data ''routes'' (PList []) = Inr routes \<and> truthy routes
            \<and> read_config g h = Inr cfg
            \<and> transform (destination ti) (travel_mode_of g cfg) routes = Inr v)"
    if w: "CacheSet ns p v \<in> set ?evs"
  proof -
    from wr[OF w] obtain cfg hdrs resp data routes x where
      facts: "ns = this_module" "read_config g h = Inr cfg"
        "session_post e routes_url p hdrs = Inr resp"
        "resp_status resp = 200" "resp_json resp = Inr data"
        "py_get data ''routes'' (PList []) = Inr routes" "truthy routes"
        "transform (destination ti) (travel_mode_of g cfg) routes = Inr v"
      and run: "async_call g e h ti =
                 except_Exception g
                   (x, [CacheGet this_module p, HttpPost routes_url p hdrs,
                        CacheSet this_module p v])"
      by blast
    have "HttpPost routes_url p hdrs \<in> set ?evs"
      unfolding run by (rule except_Exception_keeps) simp
    with facts show ?thesis by blast
  qed
  have backward: "CacheSet ns p v \<in> set ?evs"
    if "ns = this_module"
      and "HttpPost routes_url p hdrs \<in> set ?evs"
      and "session_post e routes_url p hdrs = Inr resp"
      and "resp_status resp = 200" "resp_json resp = Inr data"
      and "py_get data ''routes'' (PList []) = Inr routes" "truthy routes"
      and "read_config g h = Inr cfg"
      and "transform (destination ti) (travel_mode_of g cfg) routes = Inr v"
    for hdrs resp data routes cfg
  proof -
    from async_call_posted[OF that(2,3)] that(8)
    have run: "async_call g e h ti =
               except_Exception g
                 (fst (with_exit resp
                         (with_body e (destination ti) (travel_mode_of g cfg) p resp)),
                  [CacheGet this_module p, HttpPost routes_url p hdrs]
                  @ snd (with_body e (destination ti) (travel_mode_of g cfg) p resp))"
      by auto
    show ?thesis
      unfolding run with_body_written[OF that(4,5,6,7,9)] that(1)
      by (rule except_Exception_keeps) simp
  qed
  have a: "CacheSet ns p v \<in> set ?evs \<longleftrightarrow>
      ns = this_module
      \<and> (\<exists>hdrs resp data routes cfg.
            HttpPost routes_url p hdrs \<in> set ?evs
            \<and> session_post e routes_url p hdrs = Inr resp
            \<and> resp_status resp = 200 \<and> resp_json resp = Inr data
            \<and> py_get data ''routes'' (PList []) = Inr routes \<and> truthy routes
            \<and> read_config g h = Inr cfg
            \<and> transform (destination ti) (travel_mode_of g cfg) routes = Inr v)"
    using forward backward by blast
  have b: "\<exists>hdrs rest.
           ?evs = [CacheGet ns p, HttpPost routes_url p hdrs, CacheSet ns p v] @ rest
           \<and> (rest = [] \<or> (\<exists>s. rest = [LogError s]))"
    if w: "CacheSet ns p v \<in> set ?evs"
  proof -
    from wr[OF w] obtain hdrs x where ns: "ns = this_module"
      and run: "async_call g e h ti =
                 except_Exception g
                   (x, [CacheGet this_module p, HttpPost routes_url p hdrs,
                        CacheSet this_module p v])"
      by blast
    from except_Exception_forms[of g x "[CacheGet this_module p, HttpPost routes_url p hdrs,
                        CacheSet this_module p v]"]
    show ?thesis unfolding run ns by auto
  qed
  have c: "CacheSet ns p v \<notin> set ?evs"
    if out: "fst (async_call g e h ti) = Return no_route_result
             \<or> fst (async_call g e h ti) = Return (api_error_result st)"
  proof
    assume w: "CacheSet ns p v \<in> set ?evs"
    from wr[OF w] obtain cfg hdrs resp data routes where
      "ns = this_module" "read_config g h = Inr cfg"
      "session_post e routes_url p hdrs = Inr resp"
      "resp_status resp = 200" "resp_json resp = Inr data"
      "py_get data ''routes'' (PList []) = Inr routes" "truthy routes"
      and tr: "transform (destination ti) (travel_mode_of g cfg) routes = Inr v"
      and run: "async_call g e h ti =
                 except_Exception g
                   (case resp_aexit resp of
                      Some f \<Rightarrow> Raise f
                    | None \<Rightarrow> (case cache_set e this_module p v of
                                 Some f \<Rightarrow> Raise f | None \<Rightarrow> Return v),
                    [CacheGet this_module p, HttpPost routes_url p hdrs,
                     CacheSet this_module p v])"
      by blast
    from transform_shape[OF tr] obtain m du di where
      v: "v = PDict [(''destination'', PStr (destination ti)), (''travel_mode'', PStr m),
                     (''duration'', PStr du), (''distance'', PStr di),
                     (''instruction'', PStr response_directive)]"
      by blast
    from out show False
      unfolding run v
      by (auto simp: except_Exception_def no_route_result_def api_error_result_def
               split: option.splits if_splits)
  qed
  have d: "\<exists>hdrs. async_call g e h ti =
                     (Return v, [CacheGet ns p, HttpPost routes_url p hdrs, CacheSet ns p v])"
    if w: "CacheSet ns p v \<in> set ?evs" and set: "cache_set e ns p v = None"
      and ex: "\<forall>hdrs resp. session_post e routes_url p hdrs = Inr resp
                            \<longrightarrow> resp_aexit resp = None"
  proof -
    from wr[OF w] obtain hdrs resp where ns: "ns = this_module"
      and post: "session_post e routes_url p hdrs = Inr resp"
      and run: "async_call g e h ti =
                 except_Exception g
                   (case resp_aexit resp of
                      Some f \<Rightarrow> Raise f
                    | None \<Rightarrow> (case cache_set e this_module p v of
                                 Some f \<Rightarrow> Raise f | None \<Rightarrow> Return v),
                    [CacheGet this_module p, HttpPost routes_url p hdrs,
                     CacheSet this_module p v])"
      by blast
    from ex post have "resp_aexit resp = None" by blast
    with set ns have "async_call g e h ti =
        (Return v, [CacheGet ns p, HttpPost routes_url p hdrs, CacheSet ns p v])"
      unfolding run by (simp add: except_Exception_def)
    thus ?thesis by blast
  qed
  from a b c d show ?thesis by blast
qed

theorem cache_write_witness:
  "CacheSet this_module (test_payload ''Times Square'') (success_result ''Times Square'')
     \<in> set (snd (async_call test_deps (mock_env PNone (Inr success_reply))
                   (test_hass numeric_config) (test_input ''Times Square'')))
   \<and> fst (async_call test_deps (mock_env PNone (Inr success_reply))
            (test_hass numeric_config) (test_input ''Times Square''))
       = Return (success_result ''Times Square'')
   \<and> CacheSet this_module (test_payload ''Nowhere'') (success_result ''Nowhere'')
     \<notin> set (snd (async_call test_deps (mock_env PNone (Inr no_route_reply))
                   (test_hass numeric_config) (test_input ''Nowhere'')))"
proof -
  let ?e = "mock_env PNone (Inr success_reply)"
  let ?run = "async_call test_deps ?e (test_hass numeric_config) (test_input ''Times Square'')"
  have post: "HttpPost routes_url (test_payload ''Times Square'')
                (headers (PStr ''test_routes_key'')) \<in> set (snd ?run)"
    by (rule numeric_posted[where v = PNone]) (simp_all add: mock_env_simps)
  have reply: "session_post ?e routes_url (test_payload ''Times Square'')
                 (headers (PStr ''test_routes_key'')) = Inr success_reply"
    by (simp add: mock_env_simps)
  have status: "resp_status success_reply = 200"
    by (simp add: success_reply_def mock_response_def)
  have body: "resp_json success_reply =
      Inr (PDict [(''routes'', PList [PDict
          [(''duration'', PStr ''1200s''),
           (''distanceMeters'', PInt 5000),
           (''legs'', PList [PDict [(''duration'', PStr ''1200s''),
                                    (''distanceMeters'', PInt 5000)]])]])])"
    by (simp add: success_reply_def mock_response_def)
  have routes: "py_get (PDict [(''routes'', PList [PDict
          [(''duration'', PStr ''1200s''),
           (''distanceMeters'', PInt 5000),
           (''legs'', PList [PDict [(''duration'', PStr ''1200s''),
                                    (''distanceMeters'', PInt 5000)]])]])]) ''routes'' (PList [])
      = Inr (PList [PDict
          [(''duration'', PStr ''1200s''),
           (''distanceMeters'', PInt 5000),
           (''legs'', PList [PDict [(''duration'', PStr ''1200s''),
                                    (''distanceMeters'', PInt 5000)]])]])"
    by (simp add: dict_get_default_def)
  have some: "truthy (PList [PDict
          [(''duration'', PStr ''1200s''),
           (''distanceMeters'', PInt 5000),
           (''legs'', PList [PDict [(''duration'', PStr ''1200s''),
                                    (''distanceMeters'', PInt 5000)]])]])"
    by simp
  have tr: "transform (destination (test_input ''Times Square''))
              (travel_mode_of test_deps numeric_config)
              (PList [PDict
                [(''duration'', PStr ''1200s''),
                 (''distanceMeters'', PInt 5000),
                 (''legs'', PList [PDict [(''duration'', PStr ''1200s''),
                                          (''distanceMeters'', PInt 5000)]])]])
            = Inr (success_result ''Times Square'')"
    by (simp add: numeric_config_reads test_input_def transform_1200_5000)
  have written: "CacheSet this_module (test_payload ''Times Square'')
                   (success_result ''Times Square'') \<in> set (snd ?run)"
    using cache_write[of this_module "test_payload ''Times Square''"
            "success_result ''Times Square''" test_deps ?e "test_hass numeric_config"
            "test_input ''Times Square''" 0]
          post reply status body routes some tr read_config_test_hass[of numeric_config]
    by blast
  have quiet: "cache_set ?e this_module (test_payload ''Times Square'')
                 (success_result ''Times Square'') = None
               \<and> (\<forall>hdrs resp. session_post ?e routes_url (test_payload ''Times Square'') hdrs
                                  = Inr resp \<longrightarrow> resp_aexit resp = None)"
    by (simp add: mock_env_simps success_reply_def mock_response_def)
  have returned: "fst ?run = Return (success_result ''Times Square'')"
    using cache_write[of this_module "test_payload ''Times Square''"
            "success_result ''Times Square''" test_deps ?e "test_hass numeric_config"
            "test_input ''Times Square''" 0]
          written quiet
    by fastforce
  have none: "fst (async_call test_deps (mock_env PNone (Inr no_route_reply))
                     (test_hass numeric_config) (test_input ''Nowhere''))
              = Return no_route_result"
    by (simp add: no_route_run)
  have unwritten: "CacheSet this_module (test_payload ''Nowhere'') (success_result ''Nowhere'')
     \<notin> set (snd (async_call test_deps (mock_env PNone (Inr no_route_reply))
                   (test_hass numeric_config) (test_input ''Nowhere'')))"
    using cache_write[of this_module "test_payload ''Nowhere''" "success_result ''Nowhere''"
            test_deps "mock_env PNone (Inr no_route_reply)" "test_hass numeric_config"
            "test_input ''Nowhere''" 0]
          none
    by blast
  from written returned unwritten show ?thesis by blast
qed

text \<open>
  The claim as written fails in three runs with an origin configured and a cache
  miss: a reply with status 200 and one route whose duration is \<open>12.5s\<close> is not
  written (the conversion to an integer fails); when the write itself fails, and
  when leaving the reply fails after the write, the exception is caught and the
  error mapping returned although the cache was written to.
\<close>

theorem cache_write_counterexample:
  "async_call test_deps (mock_env PNone (Inr fractional_reply)) (test_hass numeric_config)
      (test_input ''Times Square'')
     = (Return (PDict [(''error'', PStr (''Error getting route: ''
                  @ str_of test_deps (Builtin (ValueError ''int'' ''12.5''))))]),
        [CacheGet this_module (test_payload ''Times Square''),
         HttpPost routes_url (test_payload ''Times Square'') (headers (PStr ''test_routes_key'')),
         LogError (''Routes API error: ''
                   @ str_of test_deps (Builtin (ValueError ''int'' ''12.5'')))])
   \<and> async_call test_deps (failing_write_env (Inr success_reply)) (test_hass numeric_config)
      (test_input ''Times Square'')
     = (Return (PDict [(''error'', PStr ''Error getting route: database is locked'')]),
        [CacheGet this_module (test_payload ''Times Square''),
         HttpPost routes_url (test_payload ''Times Square'') (headers (PStr ''test_routes_key'')),
         CacheSet this_module (test_payload ''Times Square'') (success_result ''Times Square''),
         LogError ''Routes API error: database is locked''])
   \<and> async_call test_deps (mock_env PNone (Inr closing_failure_reply))
      (test_hass numeric_config) (test_input ''Times Square'')
     = (Return (PDict [(''error'', PStr ''Error getting route: Connection closed'')]),
        [CacheGet this_module (test_payload ''Times Square''),
         HttpPost routes_url (test_payload ''Times Square'') (headers (PStr ''test_routes_key'')),
         CacheSet this_module (test_payload ''Times Square'') (success_result ''Times Square''),
         LogError ''Routes API error: Connection closed''])"
proof -
  have parse: "transform ''Times Square'' (PStr ''DRIVE'')
                 (PList [PDict [(''duration'', PStr ''12.5s''), (''distanceMeters'', PInt 5000)]])
               = Inl (Builtin (ValueError ''int'' ''12.5''))"
    by (simp add: transform_def and_then_def dict_get_default_def text_eval)
  have a: "async_call test_deps (mock_env PNone (Inr fractional_reply)) (test_hass numeric_config)
      (test_input ''Times Square'')
     = (Return (PDict [(''error'', PStr (''Error getting route: ''
                  @ str_of test_deps (Builtin (ValueError ''int'' ''12.5''))))]),
        [CacheGet this_module (test_payload ''Times Square''),
         HttpPost routes_url (test_payload ''Times Square'') (headers (PStr ''test_routes_key'')),
         LogError (''Routes API error: ''
                   @ str_of test_deps (Builtin (ValueError ''int'' ''12.5'')))])"
    by (simp add: run_eval mock_env_simps fractional_reply_def parse)
  have b: "async_call test_deps (failing_write_env (Inr success_reply)) (test_hass numeric_config)
      (test_input ''Times Square'')
     = (Return (PDict [(''error'', PStr ''Error getting route: database is locked'')]),
        [CacheGet this_module (test_payload ''Times Square''),
         HttpPost routes_url (test_payload ''Times Square'') (headers (PStr ''test_routes_key'')),
         CacheSet this_module (test_payload ''Times Square'') (success_result ''Times Square''),
         LogError ''Routes API error: database is locked''])"
    by (simp add: run_eval failing_write_env_def success_reply_def transform_1200_5000)
  have c: "async_call test_deps (mock_env PNone (Inr closing_failure_reply))
      (test_hass numeric_config) (test_input ''Times Square'')
     = (Return (PDict [(''error'', PStr ''Error getting route: Connection closed'')]),
        [CacheGet this_module (test_payload ''Times Square''),
         HttpPost routes_url (test_payload ''Times Square'') (headers (PStr ''test_routes_key'')),
         CacheSet this_module (test_payload ''Times Square'') (success_result ''Times Square''),
         LogError ''Routes API error: Connection closed''])"
    by (simp add: run_eval mock_env_simps closing_failure_reply_def transform_1200_5000)
  from a b c show ?thesis by (simp only: simp_thms)
qed

section \<open>What the call returns\<close>



















end
